theory Spec2Isabelle
  imports Main "HOL-Library.Sublist"
begin

section \<open>JavaScript values\<close>

text \<open>
  The server exchanges JSON and builds its replies as object literals. A value is one of
  the JSON forms; \<open>Builtin k\<close> stands for the member \<open>k\<close> that every object literal
  inherits from \<open>Object.prototype\<close> (a function, or the prototype itself for
  \<open>__proto__\<close>). An object keeps its properties in the order of the literal; a property
  that is absent reads as \<open>undefined\<close>, which is \<open>None\<close> here. Numbers are integers:
  the code only tests them for zero and for their type. A string is the list of the
  bytes of its UTF-8 form, so ASCII text is the text whose bytes are all below 128; the
  catalog, the keys and the tool names are ASCII.
\<close>

datatype js =
    Null
  | Bool bool
  | Num int
  | Str string
  | Arr "js list"
  | Obj "(string \<times> js) list"
  | Builtin string

fun truthy :: "js \<Rightarrow> bool" where
  "truthy Null = False"
| "truthy (Bool b) = b"
| "truthy (Num n) = (n \<noteq> 0)"
| "truthy (Str s) = (s \<noteq> [])"
| "truthy (Arr xs) = True"
| "truthy (Obj kvs) = True"
| "truthy (Builtin k) = True"

text \<open>\<open>!x\<close> for a value that may be \<open>undefined\<close>.\<close>

definition falsy :: "js option \<Rightarrow> bool" where
  "falsy v = (case v of None \<Rightarrow> True | Some x \<Rightarrow> \<not> truthy x)"

text \<open>
  Reading an own property \<open>x.k\<close>. The keys read by the code are never members of a
  string, an array or a prototype, so every value other than an object has none of them.
\<close>

fun field :: "js \<Rightarrow> string \<Rightarrow> js option" where
  "field (Obj kvs) k = map_of kvs k"
| "field x k = None"

definition has :: "js \<Rightarrow> string \<Rightarrow> bool" where
  "has x k = (field x k \<noteq> None)"

text \<open>Reading along a chain of properties, \<open>x.k1.k2\<close>.\<close>

fun at_path :: "js \<Rightarrow> string list \<Rightarrow> js option" where
  "at_path x [] = Some x"
| "at_path x (k # ks) = (case field x k of None \<Rightarrow> None | Some y \<Rightarrow> at_path y ks)"

subsection \<open>Strings\<close>

definition dq :: string where
  "dq = [CHR 0x22]"

definition sq :: string where
  "sq = [CHR 0x27]"

definition nl :: string where
  "nl = [CHR 0x0A]"

definition bs :: string where
  "bs = [CHR 0x5C]"

text \<open>ASCII text, and the lower-case form of an ASCII character.\<close>

definition ascii :: "string \<Rightarrow> bool" where
  "ascii s = list_all (\<lambda>c. (of_char c :: nat) < 128) s"

definition lower_char :: "char \<Rightarrow> char" where
  "lower_char c =
     (let n = (of_char c :: nat) in if 65 \<le> n \<and> n \<le> 90 then char_of (n + 32) else c)"

text \<open>\<open>s.includes(t)\<close>: \<open>t\<close> occurs in \<open>s\<close> as a contiguous run.\<close>

fun str_includes :: "string \<Rightarrow> string \<Rightarrow> bool" where
  "str_includes [] t = (t = [])"
| "str_includes (c # cs) t = (prefix t (c # cs) \<or> str_includes cs t)"

text \<open>\<open>s.replace(p, r)\<close> with a string pattern: the first occurrence only.\<close>

fun replace :: "string \<Rightarrow> string \<Rightarrow> string \<Rightarrow> string" where
  "replace [] p r = (if p = [] then r else [])"
| "replace (c # cs) p r =
     (if prefix p (c # cs) then r @ drop (length p) (c # cs) else c # replace cs p r)"

text \<open>\<open>xs.join(sep)\<close>.\<close>

fun join :: "string \<Rightarrow> string list \<Rightarrow> string" where
  "join sep [] = []"
| "join sep [x] = x"
| "join sep (x # y # ys) = x @ sep @ join sep (y # ys)"

subsection \<open>The runtime\<close>

text \<open>
  What a call takes from the JavaScript runtime and from the zod library rather than from
  its arguments. \<open>clock k\<close> is the reading of the \<open>k\<close>-th \<open>new Date()\<close> of the call in
  milliseconds; \<open>dateParse s\<close> is the time value of \<open>new Date(s)\<close>, \<open>None\<close> for an
  invalid date; \<open>stringify\<close> is \<open>JSON.stringify(x, null, 2)\<close>; \<open>zodMessage\<close> is the
  \<open>message\<close> of a \<open>ZodError\<close> with the given issues; \<open>dateNow\<close> and \<open>randomSuffix\<close>
  are the two texts that \<open>generateId\<close> splices into an identifier; \<open>offSchema n x\<close> is
  what the executor named \<open>n\<close> does on an argument \<open>x\<close> that its validator did not
  produce (the engine's coercions and type errors); \<open>unicodeLower s\<close> is the lower-case
  form that the engine's Unicode tables give a string with characters outside ASCII.
\<close>

type_synonym zod_issue = "string list \<times> string"

record env =
  clock :: "nat \<Rightarrow> int"
  dateParse :: "string \<Rightarrow> int option"
  toISOString :: "int \<Rightarrow> string"
  stringify :: "js \<Rightarrow> string"
  zodMessage :: "zod_issue list \<Rightarrow> string"
  dateNow :: string
  randomSuffix :: string
  offSchema :: "string \<Rightarrow> js \<Rightarrow> string + js"
  unicodeLower :: "string \<Rightarrow> string"

text \<open>
  \<open>String.prototype.toLowerCase\<close>. It is independent of the locale: on ASCII text it
  turns \<open>A\<close> to \<open>Z\<close> into \<open>a\<close> to \<open>z\<close> and leaves the other characters alone; a
  string with a character outside ASCII goes through the engine's Unicode mapping (which
  takes the Kelvin sign to \<open>k\<close>, for one).
\<close>

definition toLowerCase :: "env \<Rightarrow> string \<Rightarrow> string" where
  "toLowerCase e s = (if ascii s then map lower_char s else unicodeLower e s)"

section \<open>Protocol utilities (utils/mcp-protocol.js)\<close>

definition generateId :: "env \<Rightarrow> string" where
  "generateId e = ''mcp_'' @ dateNow e @ ''_'' @ randomSuffix e"

text \<open>
  \<open>errorCodes\<close> is an object literal, so \<open>errorCodes[code]\<close> finds the own property
  when there is one and otherwise the member inherited from \<open>Object.prototype\<close>.
\<close>

definition errorCodes :: "(string \<times> int) list" where
  "errorCodes =
     [(''PARSE_ERROR'', -32700),
      (''INVALID_REQUEST'', -32600),
      (''METHOD_NOT_FOUND'', -32601),
      (''INVALID_PARAMS'', -32602),
      (''INTERNAL_ERROR'', -32603),
      (''NOT_FOUND'', -32000),
      (''UNAUTHORIZED'', -32001),
      (''FORBIDDEN'', -32002),
      (''TIMEOUT'', -32003)]"

definition objectPrototype :: "string list" where
  "objectPrototype =
     [''constructor'', ''__defineGetter__'', ''__defineSetter__'', ''hasOwnProperty'',
      ''__lookupGetter__'', ''__lookupSetter__'', ''isPrototypeOf'',
      ''propertyIsEnumerable'', ''toString'', ''valueOf'', ''__proto__'',
      ''toLocaleString'']"

definition lookupCode :: "string \<Rightarrow> js option" where
  "lookupCode code =
     (case map_of errorCodes code of
        Some n \<Rightarrow> Some (Num n)
      | None \<Rightarrow> if code \<in> set objectPrototype then Some (Builtin code) else None)"

definition getErrorCode :: "string \<Rightarrow> js" where
  "getErrorCode code =
     (if falsy (lookupCode code) then Num (-32000) else the (lookupCode code))"

definition createMCPResponse :: "env \<Rightarrow> string \<Rightarrow> js \<Rightarrow> js" where
  "createMCPResponse e method result =
     Obj [(''jsonrpc'', Str ''2.0''), (''id'', Str (generateId e)), (''result'', result)]"

definition createMCPError :: "env \<Rightarrow> string \<Rightarrow> string \<Rightarrow> js option \<Rightarrow> js" where
  "createMCPError e code message data =
     Obj [(''jsonrpc'', Str ''2.0''),
          (''id'', Str (generateId e)),
          (''error'',
             Obj ([(''code'', getErrorCode code), (''message'', Str message)]
                  @ (case data of
                       None \<Rightarrow> []
                     | Some d \<Rightarrow> if truthy d then [(''data'', d)] else [])))]"

definition validateMCPRequest :: "js option \<Rightarrow> js" where
  "validateMCPRequest request =
     (case request of
        None \<Rightarrow> Obj [(''valid'', Bool False), (''error'', Str ''Request is required'')]
      | Some r \<Rightarrow>
          if \<not> truthy r then
            Obj [(''valid'', Bool False), (''error'', Str ''Request is required'')]
          else if \<not> falsy (field r ''jsonrpc'') \<and> field r ''jsonrpc'' \<noteq> Some (Str ''2.0'') then
            Obj [(''valid'', Bool False),
                 (''error'', Str (''Invalid JSON-RPC version. Must be '' @ sq @ ''2.0'' @ sq))]
          else if falsy (field r ''method'') \<and> falsy (field r ''result'') \<and> falsy (field r ''error'') then
            Obj [(''valid'', Bool False),
                 (''error'', Str ''Request must have method, result, or error'')]
          else Obj [(''valid'', Bool True)])"

section \<open>The time filter tools (tools/timefilter.js)\<close>

record period =
  name :: string
  scale :: int
  isCustom :: bool

definition PREDEFINED_PERIODS :: "period list" where
  "PREDEFINED_PERIODS =
     [\<lparr>name = ''All Time'', scale = 0, isCustom = False\<rparr>,
      \<lparr>name = ''Today'', scale = 5, isCustom = False\<rparr>,
      \<lparr>name = ''Yesterday'', scale = 80, isCustom = False\<rparr>,
      \<lparr>name = ''Last 24 hours'', scale = 10, isCustom = False\<rparr>,
      \<lparr>name = ''This Week'', scale = 15, isCustom = False\<rparr>,
      \<lparr>name = ''Last Week'', scale = 25, isCustom = False\<rparr>,
      \<lparr>name = ''Last 7 days'', scale = 20, isCustom = False\<rparr>,
      \<lparr>name = ''Last 14 days'', scale = 85, isCustom = False\<rparr>,
      \<lparr>name = ''This Month'', scale = 30, isCustom = False\<rparr>,
      \<lparr>name = ''Last Month'', scale = 35, isCustom = False\<rparr>,
      \<lparr>name = ''Last 30 days'', scale = 50, isCustom = False\<rparr>,
      \<lparr>name = ''This Quarter'', scale = 40, isCustom = False\<rparr>,
      \<lparr>name = ''Last Quarter'', scale = 45, isCustom = False\<rparr>,
      \<lparr>name = ''Last 90 days'', scale = 55, isCustom = False\<rparr>,
      \<lparr>name = ''Last 180 days'', scale = 60, isCustom = False\<rparr>,
      \<lparr>name = ''This Year'', scale = 65, isCustom = False\<rparr>,
      \<lparr>name = ''Last Year'', scale = 75, isCustom = False\<rparr>,
      \<lparr>name = ''Last 12 Months'', scale = 70, isCustom = False\<rparr>,
      \<lparr>name = ''Custom'', scale = 100, isCustom = True\<rparr>]"

text \<open>
  The message literals of the file start with glyphs outside ASCII; they are kept as the
  bytes the file has.
\<close>

definition checkGlyph :: string where
  "checkGlyph = [CHR 0xC3, CHR 0xA2, CHR 0xC5, CHR 0x93, CHR 0xE2, CHR 0x80, CHR 0xA6]"

definition calendarGlyph :: string where
  "calendarGlyph = [CHR 0xC3, CHR 0xB0, CHR 0xC5, CHR 0xB8, CHR 0xE2, CHR 0x80, CHR 0x9C, CHR 0xE2, CHR 0x80, CHR 0xA6]"

definition bulletGlyph :: string where
  "bulletGlyph = [CHR 0xC3, CHR 0xA2, CHR 0xE2, CHR 0x82, CHR 0xAC, CHR 0xC2, CHR 0xA2]"

definition rollingGlyph :: string where
  "rollingGlyph = [CHR 0xC3, CHR 0xB0, CHR 0xC5, CHR 0xB8, CHR 0xE2, CHR 0x80, CHR 0x9D, CHR 0xE2, CHR 0x80, CHR 0x9E]"

definition customGlyph :: string where
  "customGlyph = [CHR 0xC3, CHR 0xA2, CHR 0xC5, CHR 0xA1, CHR 0xE2, CHR 0x84, CHR 0xA2, CHR 0xC3, CHR 0xAF, CHR 0xC2, CHR 0xB8]"

definition ideaGlyph :: string where
  "ideaGlyph = [CHR 0xC3, CHR 0xB0, CHR 0xC5, CHR 0xB8, CHR 0xE2, CHR 0x80, CHR 0x99, CHR 0xC2, CHR 0xA1]"

subsection \<open>Validation schemas\<close>

text \<open>
  The zod library is not part of the repository. The model follows its behaviour for the
  three combinators the schemas use: \<open>z.string()\<close> accepts a string and then runs its
  checks (\<open>.min(n, msg)\<close>, \<open>.regex(re, msg)\<close>), reporting every check that fails;
  \<open>z.object(shape)\<close> accepts an object, validates each key of the shape on the
  property of that name and returns the object of the validated keys, without the
  others. An issue is the path of the offending value and a message.
\<close>

fun zodType :: "js \<Rightarrow> string" where
  "zodType Null = ''null''"
| "zodType (Bool b) = ''boolean''"
| "zodType (Num n) = ''number''"
| "zodType (Str s) = ''string''"
| "zodType (Arr xs) = ''array''"
| "zodType (Obj kvs) = ''object''"
| "zodType (Builtin k) = ''function''"

type_synonym zod_check = "(string \<Rightarrow> bool) \<times> string"

type_synonym zod_schema = "string list \<Rightarrow> js option \<Rightarrow> zod_issue list + js"

definition zod_string :: "zod_check list \<Rightarrow> zod_schema" where
  "zod_string checks path v =
     (case v of
        None \<Rightarrow> Inl [(path, ''Required'')]
      | Some (Str s) \<Rightarrow>
          (let issues = map (\<lambda>c. (path, snd c)) (filter (\<lambda>c. \<not> fst c s) checks)
           in if issues = [] then Inr (Str s) else Inl issues)
      | Some x \<Rightarrow> Inl [(path, ''Expected string, received '' @ zodType x)])"

definition zod_min :: "nat \<Rightarrow> string \<Rightarrow> zod_check" where
  "zod_min n msg = (\<lambda>s. n \<le> length s, msg)"

fun issues_of :: "(string \<times> (zod_issue list + js)) list \<Rightarrow> zod_issue list" where
  "issues_of [] = []"
| "issues_of ((k, Inl is) # rs) = is @ issues_of rs"
| "issues_of ((k, Inr d) # rs) = issues_of rs"

fun data_of :: "(string \<times> (zod_issue list + js)) list \<Rightarrow> (string \<times> js) list" where
  "data_of [] = []"
| "data_of ((k, Inl is) # rs) = data_of rs"
| "data_of ((k, Inr d) # rs) = (k, d) # data_of rs"

definition zod_object :: "(string \<times> zod_schema) list \<Rightarrow> js \<Rightarrow> zod_issue list + js" where
  "zod_object shape v =
     (case v of
        Obj kvs \<Rightarrow>
          (let results = map (\<lambda>(k, sch). (k, sch [k] (map_of kvs k))) shape
           in if issues_of results = [] then Inr (Obj (data_of results))
              else Inl (issues_of results))
      | x \<Rightarrow> Inl [([], ''Expected object, received '' @ zodType x)])"

text \<open>The regular expression \<open>/^\d{4}-\d{2}-\d{2}$/\<close>.\<close>

definition digit :: "char \<Rightarrow> bool" where
  "digit c = (48 \<le> (of_char c :: nat) \<and> (of_char c :: nat) \<le> 57)"

fun datePattern :: "string \<Rightarrow> bool" where
  "datePattern [y1, y2, y3, y4, h1, m1, m2, h2, d1, d2] =
     (digit y1 \<and> digit y2 \<and> digit y3 \<and> digit y4 \<and> h1 = CHR ''-'' \<and>
      digit m1 \<and> digit m2 \<and> h2 = CHR ''-'' \<and> digit d1 \<and> digit d2)"
| "datePattern s = False"

definition datePatternText :: string where
  "datePatternText = ''^'' @ bs @ ''d{4}-'' @ bs @ ''d{2}-'' @ bs @ ''d{2}$''"

definition setTimePeriodSchema :: "js \<Rightarrow> zod_issue list + js" where
  "setTimePeriodSchema =
     zod_object
       [(''timePeriodName'', zod_string [zod_min 1 ''Time period name is required'']),
        (''tabName'', zod_string [zod_min 1 ''Tab name is required''])]"

definition setCustomDateRangeSchema :: "js \<Rightarrow> zod_issue list + js" where
  "setCustomDateRangeSchema =
     zod_object
       [(''startDate'', zod_string [(datePattern, ''Start date must be in YYYY-MM-DD format'')]),
        (''endDate'', zod_string [(datePattern, ''End date must be in YYYY-MM-DD format'')]),
        (''tabName'', zod_string [zod_min 1 ''Tab name is required''])]"

subsection \<open>Tool definitions\<close>

text \<open>
  \<open>validateArgs\<close> returns \<open>{success: true, data}\<close> (\<open>Inr data\<close>) or
  \<open>{success: false, error}\<close> (\<open>Inl error\<close>). \<open>execute\<close> returns its outcome
  (\<open>Inr\<close>) or raises a fault with a message (\<open>Inl\<close>).
\<close>

record tool =
  tool_name :: string
  description :: string
  inputSchema :: js
  validateArgs :: "env \<Rightarrow> js \<Rightarrow> string + js"
  execute :: "env \<Rightarrow> js \<Rightarrow> string + js"

definition tabNames :: "string list" where
  "tabNames = [''Overview'', ''Comparison'', ''Prediction'', ''Text Analysis'', ''Customer Journey'']"

subsubsection \<open>set_time_period\<close>

text \<open>The loop over the catalog, left at the first match.\<close>

fun findPeriod :: "env \<Rightarrow> string \<Rightarrow> period list \<Rightarrow> period option" where
  "findPeriod e searchKey [] = None"
| "findPeriod e searchKey (period # periods) =
     (if str_includes (toLowerCase e (name period)) searchKey
         \<or> str_includes searchKey (toLowerCase e (name period))
      then Some period
      else findPeriod e searchKey periods)"

definition actionTarget :: "env \<Rightarrow> string \<Rightarrow> string" where
  "actionTarget e tabName = ''filter-'' @ replace (toLowerCase e tabName) '' '' ''-''"

definition setTimePeriod :: "env \<Rightarrow> string \<Rightarrow> string \<Rightarrow> js" where
  "setTimePeriod e timePeriodName tabName =
     (let searchKey = toLowerCase e timePeriodName in
      case findPeriod e searchKey PREDEFINED_PERIODS of
        None \<Rightarrow>
          Obj [(''success'', Bool False),
               (''message'',
                  Str (''Time period '' @ dq @ timePeriodName @ dq
                       @ '' not found. Available periods: ''
                       @ join '', '' (map name PREDEFINED_PERIODS))),
               (''availablePeriods'', Arr (map (\<lambda>p. Str (name p)) PREDEFINED_PERIODS))]
      | Some selectedPeriod \<Rightarrow>
          (let startDate =
                 (if scale selectedPeriod = 0 then Null else Str (toISOString e (clock e 0)));
               endDate =
                 (if scale selectedPeriod = 0 then Null else Str (toISOString e (clock e 0)));
               stamp = clock e (if scale selectedPeriod = 0 then 0 else 1);
               filterConfig =
                 Obj ([(''periodScale'', Num (scale selectedPeriod)),
                       (''tabName'', Str tabName),
                       (''periodName'', Str (name selectedPeriod)),
                       (''isCustom'', Bool (isCustom selectedPeriod)),
                       (''timestamp'', Str (toISOString e stamp))]
                      @ (if scale selectedPeriod = 100
                         then [(''startDate'', startDate), (''endDate'', endDate)]
                         else []))
           in Obj [(''success'', Bool True),
                   (''message'',
                      Str (checkGlyph @ '' Successfully set time filter to '' @ dq
                           @ name selectedPeriod @ dq @ '' for '' @ tabName @ '' tab.'')),
                   (''filterConfig'', filterConfig),
                   (''action'',
                      Obj [(''type'', Str ''time_period_changed''),
                           (''target'', Str (actionTarget e tabName)),
                           (''data'', filterConfig)])]))"

definition setTimePeriodTool :: tool where
  "setTimePeriodTool =
     \<lparr>tool_name = ''set_time_period'',
      description = ''Set a predefined time period for dashboard tabs. Supports calendar periods (This Month, Last Week) and rolling periods (Last 30 days, Last 7 days).'',
      inputSchema =
        Obj [(''type'', Str ''object''),
             (''properties'',
                Obj [(''timePeriodName'',
                        Obj [(''type'', Str ''string''),
                             (''description'', Str ''EXACT name of the time period''),
                             (''enum'', Arr (map (\<lambda>p. Str (name p)) PREDEFINED_PERIODS))]),
                     (''tabName'',
                        Obj [(''type'', Str ''string''),
                             (''description'', Str ''Dashboard tab to apply the filter to''),
                             (''enum'', Arr (map Str tabNames))])]),
             (''required'', Arr [Str ''timePeriodName'', Str ''tabName''])],
      validateArgs =
        (\<lambda>e args. case setTimePeriodSchema args of
                     Inr validated \<Rightarrow> Inr validated
                   | Inl issues \<Rightarrow> Inl (zodMessage e issues)),
      execute =
        (\<lambda>e args. case (field args ''timePeriodName'', field args ''tabName'') of
                     (Some (Str timePeriodName), Some (Str tabName)) \<Rightarrow>
                       Inr (setTimePeriod e timePeriodName tabName)
                   | _ \<Rightarrow> offSchema e ''set_time_period'' args)\<rparr>"

subsubsection \<open>set_custom_date_range\<close>

definition failure :: "string \<Rightarrow> js" where
  "failure message = Obj [(''success'', Bool False), (''message'', Str message)]"

definition setCustomDateRange :: "env \<Rightarrow> string \<Rightarrow> string \<Rightarrow> string \<Rightarrow> js" where
  "setCustomDateRange e startDate endDate tabName =
     (case dateParse e startDate of
        None \<Rightarrow>
          failure (''Invalid start date: '' @ startDate @ ''. Please use format YYYY-MM-DD'')
      | Some start \<Rightarrow>
          (case dateParse e endDate of
             None \<Rightarrow>
               failure (''Invalid end date: '' @ endDate @ ''. Please use format YYYY-MM-DD'')
           | Some end' \<Rightarrow>
               if start > end' then failure ''Start date cannot be after end date''
               else if end' > clock e 0 then failure ''End date cannot be in the future''
               else
                 (let dateRangeText = startDate @ '' to '' @ endDate;
                      filterConfig =
                        Obj [(''periodScale'', Num 100),
                             (''startDate'', Str (toISOString e start)),
                             (''endDate'', Str (toISOString e end')),
                             (''tabName'', Str tabName),
                             (''periodName'', Str (''Custom ('' @ dateRangeText @ '')'')),
                             (''isCustom'', Bool True),
                             (''timestamp'', Str (toISOString e (clock e 1)))]
                  in Obj [(''success'', Bool True),
                          (''message'',
                             Str (checkGlyph @ '' Successfully set custom date range '' @ dq
                                  @ dateRangeText @ dq @ '' for '' @ tabName @ '' tab.'')),
                          (''filterConfig'', filterConfig),
                          (''action'',
                             Obj [(''type'', Str ''time_period_changed''),
                                  (''target'', Str (actionTarget e tabName)),
                                  (''data'', filterConfig)])])))"

definition setCustomDateRangeTool :: tool where
  "setCustomDateRangeTool =
     \<lparr>tool_name = ''set_custom_date_range'',
      description = ''Set a custom date range with specific start and end dates for dashboard tabs.'',
      inputSchema =
        Obj [(''type'', Str ''object''),
             (''properties'',
                Obj [(''startDate'',
                        Obj [(''type'', Str ''string''),
                             (''pattern'', Str datePatternText),
                             (''description'', Str ''Start date in YYYY-MM-DD format'')]),
                     (''endDate'',
                        Obj [(''type'', Str ''string''),
                             (''pattern'', Str datePatternText),
                             (''description'', Str ''End date in YYYY-MM-DD format'')]),
                     (''tabName'',
                        Obj [(''type'', Str ''string''),
                             (''description'', Str ''Dashboard tab to apply the filter to''),
                             (''enum'', Arr (map Str tabNames))])]),
             (''required'', Arr [Str ''startDate'', Str ''endDate'', Str ''tabName''])],
      validateArgs =
        (\<lambda>e args. case setCustomDateRangeSchema args of
                     Inr validated \<Rightarrow> Inr validated
                   | Inl issues \<Rightarrow> Inl (zodMessage e issues)),
      execute =
        (\<lambda>e args. case (field args ''startDate'', field args ''endDate'', field args ''tabName'') of
                     (Some (Str startDate), Some (Str endDate), Some (Str tabName)) \<Rightarrow>
                       Inr (setCustomDateRange e startDate endDate tabName)
                   | _ \<Rightarrow> offSchema e ''set_custom_date_range'' args)\<rparr>"

subsubsection \<open>list_time_periods\<close>

definition category :: "period \<Rightarrow> string" where
  "category period =
     (if isCustom period then ''Custom''
      else if str_includes (name period) ''This''
              \<or> (str_includes (name period) ''Last''
                  \<and> \<not> str_includes (name period) ''days''
                  \<and> \<not> str_includes (name period) ''hours'')
           then ''Calendar''
           else ''Rolling'')"

text \<open>An entry of \<open>periodsInfo\<close>: the period with its category.\<close>

type_synonym period_info = "period \<times> string"

definition info :: "period_info \<Rightarrow> js" where
  "info p =
     Obj [(''name'', Str (name (fst p))),
          (''scale'', Num (scale (fst p))),
          (''isCustom'', Bool (isCustom (fst p))),
          (''category'', Str (snd p))]"

definition bullets :: "period_info list \<Rightarrow> string" where
  "bullets ps = join nl (map (\<lambda>p. bulletGlyph @ '' '' @ name (fst p)) ps)"

definition listTimePeriods :: js where
  "listTimePeriods =
     (let periodsInfo = map (\<lambda>period. (period, category period)) PREDEFINED_PERIODS;
          calendarPeriods = filter (\<lambda>p. snd p = ''Calendar'') periodsInfo;
          rollingPeriods = filter (\<lambda>p. snd p = ''Rolling'') periodsInfo;
          customPeriods = filter (\<lambda>p. snd p = ''Custom'') periodsInfo
      in Obj [(''success'', Bool True),
              (''message'',
                 Str (calendarGlyph @ '' **Available Time Periods:**'' @ nl @ nl
                      @ ''**'' @ calendarGlyph @ '' Calendar Periods:**'' @ nl
                      @ bullets calendarPeriods @ nl @ nl
                      @ ''**'' @ rollingGlyph @ '' Rolling Periods:**  '' @ nl
                      @ bullets rollingPeriods @ nl @ nl
                      @ ''**'' @ customGlyph @ '' Custom Periods:**'' @ nl
                      @ bullets customPeriods @ nl @ nl
                      @ ''**'' @ ideaGlyph @ '' Usage Examples:**'' @ nl
                      @ ''- '' @ dq @ ''Set Last Month for Overview tab'' @ dq @ nl
                      @ ''- '' @ dq @ ''Set Last 30 days for Comparison tab'' @ dq @ nl
                      @ ''- '' @ dq
                      @ ''Set custom date range 2024-01-01 to 2024-01-31 for Text Analysis tab''
                      @ dq)),
              (''data'',
                 Obj [(''calendarPeriods'', Arr (map info calendarPeriods)),
                      (''rollingPeriods'', Arr (map info rollingPeriods)),
                      (''customPeriods'', Arr (map info customPeriods)),
                      (''totalCount'', Num (int (length periodsInfo)))])])"

definition listTimePeriodsTools :: tool where
  "listTimePeriodsTools =
     \<lparr>tool_name = ''list_time_periods'',
      description = ''List all available predefined time periods and their descriptions.'',
      inputSchema =
        Obj [(''type'', Str ''object''), (''properties'', Obj []), (''required'', Arr [])],
      validateArgs = (\<lambda>e args. Inr args),
      execute = (\<lambda>e args. Inr listTimePeriods)\<rparr>"

definition timeFilterTools :: "tool list" where
  "timeFilterTools = [setTimePeriodTool, setCustomDateRangeTool, listTimePeriodsTools]"

section \<open>The tool-call endpoint (server.js)\<close>

text \<open>
  The handler of \<open>POST /mcp/tools/call\<close> over a registry \<open>tools\<close>; the server runs it
  on \<open>timeFilterTools\<close>. The body is a JSON object; \<open>toolName\<close> is its \<open>name\<close>, a string
  when present, and \<open>toolArgs\<close> its \<open>arguments\<close>. The reply is the HTTP status and
  the envelope. The \<open>catch\<close> of the handler is the last case.
\<close>

definition toolsCall :: "env \<Rightarrow> tool list \<Rightarrow> string option \<Rightarrow> js option \<Rightarrow> nat \<times> js" where
  "toolsCall e tools toolName toolArgs =
     (if falsy (map_option Str toolName) \<or> falsy toolArgs then
        (400, createMCPError e ''INVALID_REQUEST'' ''Missing tool name or arguments'' None)
      else
        case find (\<lambda>t. tool_name t = the toolName) tools of
          None \<Rightarrow>
            (404, createMCPError e ''METHOD_NOT_FOUND''
                    (''Tool '' @ sq @ the toolName @ sq @ '' not found'') None)
        | Some tool \<Rightarrow>
            (case validateArgs tool e (the toolArgs) of
               Inl error \<Rightarrow>
                 (400, createMCPError e ''INVALID_PARAMS'' (''Invalid arguments: '' @ error) None)
             | Inr data \<Rightarrow>
                 (case execute tool e data of
                    Inr result \<Rightarrow>
                      (200, createMCPResponse e ''tools/call''
                              (Obj [(''content'',
                                       Arr [Obj [(''type'', Str ''text''),
                                                 (''text'', Str (stringify e result))]])]))
                  | Inl message \<Rightarrow>
                      (500, createMCPError e ''INTERNAL_ERROR''
                              (''Tool execution failed: '' @ message) None))))"

text \<open>The endpoint as the server mounts it.\<close>

definition dispatch :: "env \<Rightarrow> string option \<Rightarrow> js option \<Rightarrow> nat \<times> js" where
  "dispatch e toolName toolArgs = toolsCall e timeFilterTools toolName toolArgs"

section \<open>A sample runtime\<close>

text \<open>
  An environment on which the definitions are run: the clock stands at
  2025-11-03T10:40:00Z, three ISO dates have their time values, and the renderings keep
  what the examples look at. The examples are ASCII, so the Unicode mapping is not used.
\<close>

definition sampleEnv :: env where
  "sampleEnv =
     \<lparr>clock = (\<lambda>k. 1762166400000),
      dateParse =
        map_of [(''2024-01-01'', 1704067200000),
                (''2024-01-31'', 1706659200000),
                (''2024-02-01'', 1706745600000)],
      toISOString =
        (\<lambda>ms. if ms = 1704067200000 then ''2024-01-01T00:00:00.000Z''
              else if ms = 1706659200000 then ''2024-01-31T00:00:00.000Z''
              else if ms = 1706745600000 then ''2024-02-01T00:00:00.000Z''
              else ''2025-11-03T10:40:00.000Z''),
      stringify = (\<lambda>x. case at_path x [''message''] of Some (Str m) \<Rightarrow> m | _ \<Rightarrow> []),
      zodMessage = (\<lambda>issues. join ''; '' (map snd issues)),
      dateNow = ''1762166400000'',
      randomSuffix = ''k3j9x2m1q'',
      offSchema = (\<lambda>n x. Inl ''TypeError''),
      unicodeLower = (\<lambda>s. s)\<rparr>"

section \<open>Notions used in the statements\<close>

text \<open>A property of a request that may be absent altogether.\<close>

definition member_of :: "js option \<Rightarrow> string \<Rightarrow> js option" where
  "member_of request k = (case request of None \<Rightarrow> None | Some r \<Rightarrow> field r k)"

text \<open>The elements of an array found at some property; nothing if there is no array.\<close>

fun elements :: "js option \<Rightarrow> js list" where
  "elements (Some (Arr xs)) = xs"
| "elements v = []"

text \<open>
  Resolution of a period name as the specification words it: the lower-cased input
  contains the lower-cased name of the entry, or that name contains the input.
\<close>

definition spec_matches :: "env \<Rightarrow> string \<Rightarrow> period \<Rightarrow> bool" where
  "spec_matches e input p =
     (sublist (toLowerCase e (name p)) (toLowerCase e input)
      \<or> sublist (toLowerCase e input) (toLowerCase e (name p)))"

text \<open>
  Containment without regard to case, said without any lower-casing: two characters are
  the same letter when they are equal or one is an upper-case ASCII letter and the other
  its lower-case form; \<open>ci_includes s t\<close> holds when \<open>t\<close> matches a contiguous run of
  \<open>s\<close> letter by letter.
\<close>

definition same_letter :: "char \<Rightarrow> char \<Rightarrow> bool" where
  "same_letter c d =
     (c = d
      \<or> (65 \<le> (of_char c :: nat) \<and> (of_char c :: nat) \<le> 90
          \<and> (of_char d :: nat) = of_char c + 32)
      \<or> (65 \<le> (of_char d :: nat) \<and> (of_char d :: nat) \<le> 90
          \<and> (of_char c :: nat) = of_char d + 32))"

fun ci_prefix :: "string \<Rightarrow> string \<Rightarrow> bool" where
  "ci_prefix [] s = True"
| "ci_prefix (c # cs) [] = False"
| "ci_prefix (c # cs) (d # ds) = (same_letter c d \<and> ci_prefix cs ds)"

fun ci_includes :: "string \<Rightarrow> string \<Rightarrow> bool" where
  "ci_includes [] t = (t = [])"
| "ci_includes (c # cs) t = (ci_prefix t (c # cs) \<or> ci_includes cs t)"

text \<open>What the string schemas accept: a string that is not empty, a string of the date form.\<close>

fun nonEmptyString :: "js option \<Rightarrow> bool" where
  "nonEmptyString (Some (Str s)) = (s \<noteq> [])"
| "nonEmptyString v = False"

fun dateString :: "js option \<Rightarrow> bool" where
  "dateString (Some (Str s)) = datePattern s"
| "dateString v = False"


text \<open>The code and the message of the error envelope in a reply.\<close>

definition errorCode :: "nat \<times> js \<Rightarrow> js option" where
  "errorCode reply = at_path (snd reply) [''error'', ''code'']"

definition errorMessage :: "nat \<times> js \<Rightarrow> js option" where
  "errorMessage reply = at_path (snd reply) [''error'', ''message'']"

text \<open>A tool whose executor raises, for running the endpoint on another registry.\<close>

definition faultyTool :: tool where
  "faultyTool =
     listTimePeriodsTools\<lparr>tool_name := ''faulty'', execute := (\<lambda>e args. Inl ''boom'')\<rparr>"

section \<open>Helper facts\<close>

lemma str_includes_sublist: "str_includes s t = sublist t s"
  by (induction s) (simp_all add: sublist_Cons_right)

lemma findPeriod_find:
  "findPeriod e (toLowerCase e input) ps = find (spec_matches e input) ps"
  by (induction ps) (auto simp: spec_matches_def str_includes_sublist)

lemma findPeriod_mem: "findPeriod e k ps = Some p \<Longrightarrow> p \<in> set ps"
  by (induction ps) (auto split: if_splits)

lemma toLowerCase_ascii: "ascii s \<Longrightarrow> toLowerCase e s = map lower_char s"
  by (simp add: toLowerCase_def)

lemma catalog_ascii: "p \<in> set PREDEFINED_PERIODS \<Longrightarrow> ascii (name p)"
  by (auto simp: PREDEFINED_PERIODS_def ascii_def)

lemma of_char_lower:
  "(of_char (lower_char c) :: nat)
     = (if 65 \<le> (of_char c :: nat) \<and> (of_char c :: nat) \<le> 90 then of_char c + 32
        else of_char c)"
  by (simp add: lower_char_def Let_def)

lemma of_char_nat_inj: "((of_char c :: nat) = of_char d) = (c = d)"
  by simp

lemma same_letter_iff: "same_letter c d = (lower_char c = lower_char d)"
proof -
  have "(lower_char c = lower_char d)
          = ((of_char (lower_char c) :: nat) = of_char (lower_char d))"
    by simp
  also have "\<dots> = same_letter c d"
    unfolding of_char_lower same_letter_def
    unfolding of_char_nat_inj [of c d, symmetric]
    by (simp del: of_char_eq_iff) arith
  finally show ?thesis by simp
qed

lemma ci_prefix_iff: "ci_prefix t s = prefix (map lower_char t) (map lower_char s)"
  by (induction t s rule: ci_prefix.induct) (simp_all add: same_letter_iff)

lemma ci_includes_iff: "ci_includes s t = sublist (map lower_char t) (map lower_char s)"
  by (induction s) (simp_all add: sublist_Cons_right ci_prefix_iff)

lemma spec_matches_ascii:
  assumes "ascii input" and "p \<in> set PREDEFINED_PERIODS"
  shows "spec_matches e input p
           = (ci_includes input (name p) \<or> ci_includes (name p) input)"
  using assms
  by (simp add: spec_matches_def toLowerCase_ascii catalog_ascii ci_includes_iff)

lemma catalog_scale_100:
  "p \<in> set PREDEFINED_PERIODS \<Longrightarrow> (scale p = 100) = (name p = ''Custom'')"
  by (auto simp: PREDEFINED_PERIODS_def)

lemma find_ascii:
  "find (spec_matches e input) PREDEFINED_PERIODS
     = find (\<lambda>p. ci_includes input (name p) \<or> ci_includes (name p) input) PREDEFINED_PERIODS"
  if "ascii input"
  using that by (intro find_cong refl) (simp add: spec_matches_ascii)

lemma ascii_last_month: "ascii ''last month''"
  by (simp add: ascii_def)

lemma ascii_custom: "ascii ''custom''"
  by (simp add: ascii_def)

lemma find_ci_last_month:
  "find (\<lambda>p. ci_includes ''last month'' (name p) \<or> ci_includes (name p) ''last month'')
        PREDEFINED_PERIODS
     = Some \<lparr>name = ''Last Month'', scale = 35, isCustom = False\<rparr>"
  by code_simp

lemma find_ci_custom:
  "find (\<lambda>p. ci_includes ''custom'' (name p) \<or> ci_includes (name p) ''custom'')
        PREDEFINED_PERIODS
     = Some \<lparr>name = ''Custom'', scale = 100, isCustom = True\<rparr>"
  by code_simp

lemma find_last_month:
  "find (spec_matches e ''last month'') PREDEFINED_PERIODS
     = Some \<lparr>name = ''Last Month'', scale = 35, isCustom = False\<rparr>"
  by (simp only: find_ascii [OF ascii_last_month] find_ci_last_month)

lemma find_custom:
  "find (spec_matches e ''custom'') PREDEFINED_PERIODS
     = Some \<lparr>name = ''Custom'', scale = 100, isCustom = True\<rparr>"
  by (simp only: find_ascii [OF ascii_custom] find_ci_custom)

lemma execute_setTimePeriod:
  "execute setTimePeriodTool e (Obj [(''timePeriodName'', Str input), (''tabName'', Str tab)])
     = Inr (setTimePeriod e input tab)"
  by (simp add: setTimePeriodTool_def)

lemma getErrorCode_table:
  "getErrorCode ''PARSE_ERROR'' = Num (-32700)"
  "getErrorCode ''INVALID_REQUEST'' = Num (-32600)"
  "getErrorCode ''METHOD_NOT_FOUND'' = Num (-32601)"
  "getErrorCode ''INVALID_PARAMS'' = Num (-32602)"
  "getErrorCode ''INTERNAL_ERROR'' = Num (-32603)"
  "getErrorCode ''NOT_FOUND'' = Num (-32000)"
  "getErrorCode ''UNAUTHORIZED'' = Num (-32001)"
  "getErrorCode ''FORBIDDEN'' = Num (-32002)"
  "getErrorCode ''TIMEOUT'' = Num (-32003)"
  by (simp_all add: getErrorCode_def lookupCode_def errorCodes_def falsy_def)

lemma getErrorCode_default:
  "map_of errorCodes code = None \<Longrightarrow> code \<notin> set objectPrototype
     \<Longrightarrow> getErrorCode code = Num (-32000)"
  by (simp add: getErrorCode_def lookupCode_def falsy_def)

section \<open>The envelope builders\<close>

text \<open>
  C7. \<open>getErrorCode\<close> gives the nine names of the table their codes
  (\<open>getErrorCode_table\<close>) and gives \<open>-32000\<close> to a name that is neither in the table
  nor a member of \<open>Object.prototype\<close> (\<open>getErrorCode_default\<close>). A name outside the
  table that every object inherits is not given \<open>-32000\<close>: for \<open>toString\<close> the lookup
  finds the inherited function, which is truthy, so the fallback is not taken and the
  function itself is returned.
\<close>

theorem getErrorCode_inherited_member:
  "map_of errorCodes ''toString'' = None \<and> getErrorCode ''toString'' = Builtin ''toString''"
  by (simp add: getErrorCode_def lookupCode_def errorCodes_def objectPrototype_def falsy_def)

text \<open>
  C8. An envelope built by \<open>createMCPResponse\<close> has the property \<open>result\<close> and not
  \<open>error\<close>; one built by \<open>createMCPError\<close> has \<open>error\<close> and not \<open>result\<close>. So every
  envelope from the builders has exactly one of the two.
\<close>

theorem envelope_result_xor_error:
  "has (createMCPResponse e method result) ''result'' \<and>
   \<not> has (createMCPResponse e method result) ''error'' \<and>
   has (createMCPError e code message data) ''error'' \<and>
   \<not> has (createMCPError e code message data) ''result''"
  by (simp add: has_def createMCPResponse_def createMCPError_def)

theorem envelope_result_xor_error_witness:
  "has (createMCPResponse sampleEnv ''tools/list'' (Obj [])) ''result'' \<and>
   \<not> has (createMCPResponse sampleEnv ''tools/list'' (Obj [])) ''error'' \<and>
   has (createMCPError sampleEnv ''NOT_FOUND'' ''Endpoint not found'' None) ''error'' \<and>
   \<not> has (createMCPError sampleEnv ''NOT_FOUND'' ''Endpoint not found'' None) ''result''"
  using envelope_result_xor_error
    [of sampleEnv "''tools/list''" "Obj []" "''NOT_FOUND''" "''Endpoint not found''" None]
  by simp

section \<open>Request validation\<close>

text \<open>
  How \<open>validateMCPRequest\<close> decides: its three tests are tests of truthiness. It
  reports invalid exactly when the request is falsy, or its \<open>jsonrpc\<close> is truthy and not
  the string \<open>2.0\<close>, or none of \<open>method\<close>, \<open>result\<close> and \<open>error\<close> is truthy.
\<close>

lemma validateMCPRequest_truthiness:
  "at_path (validateMCPRequest request) [''valid''] =
     Some (Bool (\<not> (falsy request
                    \<or> (\<not> falsy (member_of request ''jsonrpc'')
                        \<and> member_of request ''jsonrpc'' \<noteq> Some (Str ''2.0''))
                    \<or> (falsy (member_of request ''method'')
                        \<and> falsy (member_of request ''result'')
                        \<and> falsy (member_of request ''error'')))))"
  by (cases request) (auto simp: validateMCPRequest_def member_of_def falsy_def)

text \<open>
  C6. The claim is that a request is invalid exactly when it is absent, or has a
  \<open>jsonrpc\<close> other than \<open>2.0\<close>, or has none of \<open>method\<close>, \<open>result\<close> and \<open>error\<close>;
  the messages of \<open>validateMCPRequest\<close> say the same. The code does not do that where
  a property is present with a falsy value. The reply with version \<open>2.0\<close> whose
  \<open>result\<close> is \<open>0\<close> has a \<open>result\<close> and is reported invalid, with the message that
  it must have one; the request whose \<open>jsonrpc\<close> is the empty string has a version
  other than \<open>2.0\<close> and is reported valid.
\<close>

theorem validateMCPRequest_falsy_result:
  "has (Obj [(''jsonrpc'', Str ''2.0''), (''id'', Num 1), (''result'', Num 0)]) ''result'' \<and>
   validateMCPRequest
     (Some (Obj [(''jsonrpc'', Str ''2.0''), (''id'', Num 1), (''result'', Num 0)]))
     = Obj [(''valid'', Bool False),
            (''error'', Str ''Request must have method, result, or error'')] \<and>
   has (Obj [(''jsonrpc'', Str []), (''method'', Str ''ping'')]) ''jsonrpc'' \<and>
   field (Obj [(''jsonrpc'', Str []), (''method'', Str ''ping'')]) ''jsonrpc''
     \<noteq> Some (Str ''2.0'') \<and>
   validateMCPRequest (Some (Obj [(''jsonrpc'', Str []), (''method'', Str ''ping'')]))
     = Obj [(''valid'', Bool True)]"
  by (simp add: validateMCPRequest_def falsy_def has_def)

section \<open>The time filter tools\<close>

text \<open>
  C3, as stated, fails: \<open>totalCount\<close> is the length of \<open>periodsInfo\<close>, which has an
  entry for every period of the catalog, the custom one included. It is 19, not the 18
  that are left when the custom entry is taken out.
\<close>

theorem listTimePeriods_totalCount_counterexample:
  "at_path listTimePeriods [''data'', ''totalCount''] = Some (Num 19) \<and>
   int (length PREDEFINED_PERIODS) - int (length (filter isCustom PREDEFINED_PERIODS)) = 18"
  by (simp add: listTimePeriods_def Let_def PREDEFINED_PERIODS_def)

text \<open>
  C3, amended. Executing \<open>list_time_periods\<close>, on any arguments, yields a success
  outcome whose \<open>data.totalCount\<close> is the size of the whole catalog, 19: the number of
  entries the outcome lists in its three groups, 9 calendar, 9 rolling and 1 custom.
\<close>

theorem listTimePeriods_totalCount:
  "execute listTimePeriodsTools e args = Inr listTimePeriods \<and>
   at_path listTimePeriods [''success''] = Some (Bool True) \<and>
   at_path listTimePeriods [''data'', ''totalCount'']
     = Some (Num (int (length PREDEFINED_PERIODS))) \<and>
   length PREDEFINED_PERIODS = 19 \<and>
   length (elements (at_path listTimePeriods [''data'', ''calendarPeriods''])) = 9 \<and>
   length (elements (at_path listTimePeriods [''data'', ''rollingPeriods''])) = 9 \<and>
   length (elements (at_path listTimePeriods [''data'', ''customPeriods''])) = 1"
proof -
  have run: "execute listTimePeriodsTools e args = Inr listTimePeriods"
    by (simp add: listTimePeriodsTools_def)
  have ok: "at_path listTimePeriods [''success''] = Some (Bool True)"
    by (simp add: listTimePeriods_def Let_def)
  have total: "at_path listTimePeriods [''data'', ''totalCount'']
                 = Some (Num (int (length PREDEFINED_PERIODS)))"
    by (simp add: listTimePeriods_def Let_def)
  have size: "length PREDEFINED_PERIODS = 19"
    by (simp add: PREDEFINED_PERIODS_def)
  have cal: "length (elements (at_path listTimePeriods [''data'', ''calendarPeriods''])) = 9"
    by code_simp
  have rol: "length (elements (at_path listTimePeriods [''data'', ''rollingPeriods''])) = 9"
    by code_simp
  have cus: "length (elements (at_path listTimePeriods [''data'', ''customPeriods''])) = 1"
    by code_simp
  from run ok total size cal rol cus show ?thesis by blast
qed

theorem listTimePeriods_totalCount_witness:
  "execute listTimePeriodsTools sampleEnv (Obj []) = Inr listTimePeriods \<and>
   at_path listTimePeriods [''data'', ''totalCount''] = Some (Num 19)"
  using listTimePeriods_totalCount [of sampleEnv "Obj []"] by simp

text \<open>
  C4. On validated arguments the executor of \<open>set_time_period\<close> is \<open>setTimePeriod\<close>.
  It resolves a name to the first entry of the catalog, in declared order, for which the
  lower-cased input contains the lower-cased name of the entry or that name contains the
  input (\<open>find\<close> returns the first element that satisfies the test). On a match the
  outcome is a success carrying that entry's name and scale; with no match it is a
  failure whose \<open>availablePeriods\<close> lists the names of all the catalog. For an ASCII
  input the test is containment without regard to case, letter by letter. The name
  \<open>last month\<close> resolves to the entry \<open>Last Month\<close>.
\<close>

theorem setTimePeriod_resolution:
  "execute setTimePeriodTool e (Obj [(''timePeriodName'', Str input), (''tabName'', Str tab)])
     = Inr (setTimePeriod e input tab) \<and>
   (case find (spec_matches e input) PREDEFINED_PERIODS of
      Some p \<Rightarrow>
        at_path (setTimePeriod e input tab) [''success''] = Some (Bool True) \<and>
        at_path (setTimePeriod e input tab) [''filterConfig'', ''periodName'']
          = Some (Str (name p)) \<and>
        at_path (setTimePeriod e input tab) [''filterConfig'', ''periodScale'']
          = Some (Num (scale p))
    | None \<Rightarrow>
        at_path (setTimePeriod e input tab) [''success''] = Some (Bool False) \<and>
        at_path (setTimePeriod e input tab) [''availablePeriods'']
          = Some (Arr (map (\<lambda>p. Str (name p)) PREDEFINED_PERIODS))) \<and>
   (ascii input \<longrightarrow>
      (\<forall>p \<in> set PREDEFINED_PERIODS.
         spec_matches e input p
           = (ci_includes input (name p) \<or> ci_includes (name p) input))) \<and>
   at_path (setTimePeriod e ''last month'' tab) [''filterConfig'', ''periodName'']
     = Some (Str ''Last Month'')"
proof -
  have loop: "findPeriod e (toLowerCase e input) PREDEFINED_PERIODS
                = find (spec_matches e input) PREDEFINED_PERIODS"
    by (rule findPeriod_find)
  have example: "at_path (setTimePeriod e ''last month'' tab) [''filterConfig'', ''periodName'']
                   = Some (Str ''Last Month'')"
    by (simp add: setTimePeriod_def findPeriod_find find_last_month Let_def)
  have outcome: "(case find (spec_matches e input) PREDEFINED_PERIODS of
      Some p \<Rightarrow>
        at_path (setTimePeriod e input tab) [''success''] = Some (Bool True) \<and>
        at_path (setTimePeriod e input tab) [''filterConfig'', ''periodName'']
          = Some (Str (name p)) \<and>
        at_path (setTimePeriod e input tab) [''filterConfig'', ''periodScale'']
          = Some (Num (scale p))
    | None \<Rightarrow>
        at_path (setTimePeriod e input tab) [''success''] = Some (Bool False) \<and>
        at_path (setTimePeriod e input tab) [''availablePeriods'']
          = Some (Arr (map (\<lambda>p. Str (name p)) PREDEFINED_PERIODS)))"
    by (simp add: setTimePeriod_def loop Let_def split: option.split)
  have letters: "ascii input \<longrightarrow>
      (\<forall>p \<in> set PREDEFINED_PERIODS.
         spec_matches e input p
           = (ci_includes input (name p) \<or> ci_includes (name p) input))"
    by (simp add: spec_matches_ascii)
  from execute_setTimePeriod [of e input tab] outcome letters example show ?thesis
    by (intro conjI)
qed

theorem setTimePeriod_resolution_witness:
  "ascii ''custom'' \<and>
   spec_matches sampleEnv ''custom'' \<lparr>name = ''Custom'', scale = 100, isCustom = True\<rparr> \<and>
   at_path (setTimePeriod sampleEnv ''custom'' ''Overview'') [''filterConfig'', ''periodName'']
     = Some (Str ''Custom'') \<and>
   at_path (setTimePeriod sampleEnv ''last month'' ''Overview'') [''filterConfig'', ''periodName'']
     = Some (Str ''Last Month'')"
proof -
  have mem: "\<lparr>name = ''Custom'', scale = 100, isCustom = True\<rparr> \<in> set PREDEFINED_PERIODS"
    by (simp add: PREDEFINED_PERIODS_def)
  have ci: "ci_includes ''custom'' ''Custom'' \<or> ci_includes ''Custom'' ''custom''"
    by code_simp
  have inst: "(ascii ''custom'' \<longrightarrow>
      (\<forall>p \<in> set PREDEFINED_PERIODS.
         spec_matches sampleEnv ''custom'' p
           = (ci_includes ''custom'' (name p) \<or> ci_includes (name p) ''custom''))) \<and>
     at_path (setTimePeriod sampleEnv ''custom'' ''Overview'') [''filterConfig'', ''periodName'']
       = Some (Str ''Custom'') \<and>
     at_path (setTimePeriod sampleEnv ''last month'' ''Overview'')
         [''filterConfig'', ''periodName'']
       = Some (Str ''Last Month'')"
    using setTimePeriod_resolution
            [where input = "''custom''" and e = sampleEnv and tab = "''Overview''"]
    by (simp add: find_custom)
  from inst ascii_custom have "spec_matches sampleEnv ''custom''
                                \<lparr>name = ''Custom'', scale = 100, isCustom = True\<rparr>
        = (ci_includes ''custom'' ''Custom'' \<or> ci_includes ''Custom'' ''custom'')"
    using mem by fastforce
  with ci inst ascii_custom show ?thesis by simp
qed

text \<open>
  C10. In every successful outcome that the executor of \<open>set_time_period\<close> returns on
  validated arguments, the \<open>filterConfig\<close> has the properties \<open>startDate\<close> and
  \<open>endDate\<close> if and only if the matched entry has scale 100, and has neither of them
  otherwise; in the catalog the entry of scale 100 is the entry \<open>Custom\<close>.
\<close>

theorem setTimePeriod_dates_iff_custom:
  assumes "execute setTimePeriodTool e
             (Obj [(''timePeriodName'', Str input), (''tabName'', Str tab)]) = Inr out"
      and "at_path out [''success''] = Some (Bool True)"
  shows "\<exists>p fc. findPeriod e (toLowerCase e input) PREDEFINED_PERIODS = Some p \<and>
           field out ''filterConfig'' = Some fc \<and>
           field fc ''periodName'' = Some (Str (name p)) \<and>
           (has fc ''startDate'' \<and> has fc ''endDate'') = (scale p = 100) \<and>
           (has fc ''startDate'' \<or> has fc ''endDate'') = (scale p = 100) \<and>
           (scale p = 100) = (name p = ''Custom'')"
proof -
  from assms(1) have out: "out = setTimePeriod e input tab"
    by (simp add: execute_setTimePeriod)
  show ?thesis
  proof (cases "findPeriod e (toLowerCase e input) PREDEFINED_PERIODS")
    case None
    with assms(2) show ?thesis by (simp add: out setTimePeriod_def)
  next
    case (Some p)
    then have "p \<in> set PREDEFINED_PERIODS" by (rule findPeriod_mem)
    then have "(scale p = 100) = (name p = ''Custom'')" by (rule catalog_scale_100)
    with Some show ?thesis
      by (simp add: out setTimePeriod_def Let_def has_def)
  qed
qed

theorem setTimePeriod_dates_iff_custom_witness:
  "execute setTimePeriodTool sampleEnv
     (Obj [(''timePeriodName'', Str ''custom''), (''tabName'', Str ''Overview'')])
     = Inr (setTimePeriod sampleEnv ''custom'' ''Overview'') \<and>
   at_path (setTimePeriod sampleEnv ''custom'' ''Overview'') [''success''] = Some (Bool True) \<and>
   (\<exists>p fc. findPeriod sampleEnv (toLowerCase sampleEnv ''custom'') PREDEFINED_PERIODS = Some p \<and>
           field (setTimePeriod sampleEnv ''custom'' ''Overview'') ''filterConfig'' = Some fc \<and>
           field fc ''periodName'' = Some (Str (name p)) \<and>
           (has fc ''startDate'' \<and> has fc ''endDate'') = (scale p = 100) \<and>
           (has fc ''startDate'' \<or> has fc ''endDate'') = (scale p = 100) \<and>
           (scale p = 100) = (name p = ''Custom''))"
proof -
  have x: "execute setTimePeriodTool sampleEnv
     (Obj [(''timePeriodName'', Str ''custom''), (''tabName'', Str ''Overview'')])
     = Inr (setTimePeriod sampleEnv ''custom'' ''Overview'')"
    by (rule execute_setTimePeriod)
  have h: "at_path (setTimePeriod sampleEnv ''custom'' ''Overview'') [''success'']
             = Some (Bool True)"
    by (simp add: setTimePeriod_def findPeriod_find find_custom Let_def)
  from x h setTimePeriod_dates_iff_custom [OF x h] show ?thesis by (intro conjI)
qed

section \<open>Argument validation\<close>

lemma zod_string_no_empty_issues: "zod_string checks p v \<noteq> Inl []"
  by (simp add: zod_string_def Let_def split: option.split js.split)

lemma zod_min_Inr:
  "(zod_string [zod_min (Suc 0) msg] p v = Inr d) = (\<exists>s. v = Some (Str s) \<and> s \<noteq> [] \<and> d = Str s)"
  by (auto simp: zod_string_def zod_min_def Let_def Suc_le_eq split: option.split js.split)

lemma zod_date_Inr:
  "(zod_string [(datePattern, msg)] p v = Inr d) = (\<exists>s. v = Some (Str s) \<and> datePattern s \<and> d = Str s)"
  by (auto simp: zod_string_def Let_def split: option.split js.split)

lemma results2:
  assumes "r1 \<noteq> Inl []" and "r2 \<noteq> Inl []"
  shows "((if issues_of [(k1, r1), (k2, r2)] = [] then Inr (Obj (data_of [(k1, r1), (k2, r2)]))
           else Inl (issues_of [(k1, r1), (k2, r2)])) = Inr d)
         = (\<exists>d1 d2. r1 = Inr d1 \<and> r2 = Inr d2 \<and> d = Obj [(k1, d1), (k2, d2)])"
  using assms by (cases r1; cases r2) auto

lemma results3:
  assumes "r1 \<noteq> Inl []" and "r2 \<noteq> Inl []" and "r3 \<noteq> Inl []"
  shows "((if issues_of [(k1, r1), (k2, r2), (k3, r3)] = []
           then Inr (Obj (data_of [(k1, r1), (k2, r2), (k3, r3)]))
           else Inl (issues_of [(k1, r1), (k2, r2), (k3, r3)])) = Inr d)
         = (\<exists>d1 d2 d3. r1 = Inr d1 \<and> r2 = Inr d2 \<and> r3 = Inr d3
                \<and> d = Obj [(k1, d1), (k2, d2), (k3, d3)])"
  using assms by (cases r1; cases r2; cases r3) auto

lemma setTimePeriodSchema_Inr:
  "(setTimePeriodSchema args = Inr d) =
     (\<exists>n t. field args ''timePeriodName'' = Some (Str n) \<and> n \<noteq> [] \<and>
            field args ''tabName'' = Some (Str t) \<and> t \<noteq> [] \<and>
            d = Obj [(''timePeriodName'', Str n), (''tabName'', Str t)])"
proof (cases args)
  case (Obj kvs)
  have "(setTimePeriodSchema (Obj kvs) = Inr d) =
        (\<exists>d1 d2. zod_string [zod_min (Suc 0) ''Time period name is required''] [''timePeriodName'']
                    (map_of kvs ''timePeriodName'') = Inr d1 \<and>
                 zod_string [zod_min (Suc 0) ''Tab name is required''] [''tabName'']
                    (map_of kvs ''tabName'') = Inr d2 \<and>
                 d = Obj [(''timePeriodName'', d1), (''tabName'', d2)])"
    unfolding setTimePeriodSchema_def zod_object_def
    by (simp add: Let_def results2 [OF zod_string_no_empty_issues zod_string_no_empty_issues]
             del: issues_of.simps data_of.simps)
  then show ?thesis
    unfolding Obj by (simp add: zod_min_Inr) blast
qed (simp_all add: setTimePeriodSchema_def zod_object_def)

lemma setCustomDateRangeSchema_Inr:
  "(setCustomDateRangeSchema args = Inr d) =
     (\<exists>s n t. field args ''startDate'' = Some (Str s) \<and> datePattern s \<and>
            field args ''endDate'' = Some (Str n) \<and> datePattern n \<and>
            field args ''tabName'' = Some (Str t) \<and> t \<noteq> [] \<and>
            d = Obj [(''startDate'', Str s), (''endDate'', Str n), (''tabName'', Str t)])"
proof (cases args)
  case (Obj kvs)
  have "(setCustomDateRangeSchema (Obj kvs) = Inr d) =
        (\<exists>d1 d2 d3.
           zod_string [(datePattern, ''Start date must be in YYYY-MM-DD format'')] [''startDate'']
             (map_of kvs ''startDate'') = Inr d1 \<and>
           zod_string [(datePattern, ''End date must be in YYYY-MM-DD format'')] [''endDate'']
             (map_of kvs ''endDate'') = Inr d2 \<and>
           zod_string [zod_min (Suc 0) ''Tab name is required''] [''tabName'']
             (map_of kvs ''tabName'') = Inr d3 \<and>
           d = Obj [(''startDate'', d1), (''endDate'', d2), (''tabName'', d3)])"
    unfolding setCustomDateRangeSchema_def zod_object_def
    by (simp add: Let_def
               results3 [OF zod_string_no_empty_issues zod_string_no_empty_issues
                            zod_string_no_empty_issues]
             del: issues_of.simps data_of.simps)
  then show ?thesis
    unfolding Obj by (simp add: zod_min_Inr zod_date_Inr) blast
qed (simp_all add: setCustomDateRangeSchema_def zod_object_def)

lemma nonEmptyString_iff: "nonEmptyString v = (\<exists>s. v = Some (Str s) \<and> s \<noteq> [])"
  by (cases v rule: nonEmptyString.cases) simp_all

lemma dateString_iff: "dateString v = (\<exists>s. v = Some (Str s) \<and> datePattern s)"
  by (cases v rule: dateString.cases) simp_all

lemma validate_setTimePeriod:
  "(validateArgs setTimePeriodTool e args = Inr d) = (setTimePeriodSchema args = Inr d)"
  by (simp add: setTimePeriodTool_def split: sum.split)

lemma validate_setCustomDateRange:
  "(validateArgs setCustomDateRangeTool e args = Inr d) = (setCustomDateRangeSchema args = Inr d)"
  by (simp add: setCustomDateRangeTool_def split: sum.split)

text \<open>
  C2, as stated, fails: the enum lists of \<open>inputSchema\<close> are advertised to clients and
  are not consulted by \<open>validateArgs\<close>, whose zod schema asks only for strings that
  are not empty. The period name \<open>last month\<close> and the tab \<open>Dashboard\<close> are in
  neither list, and the arguments pass validation.
\<close>

theorem validateArgs_enum_counterexample:
  "Str ''last month''
     \<notin> set (elements (at_path (inputSchema setTimePeriodTool) [''properties'', ''timePeriodName'', ''enum''])) \<and>
   Str ''Dashboard''
     \<notin> set (elements (at_path (inputSchema setTimePeriodTool) [''properties'', ''tabName'', ''enum''])) \<and>
   length (elements (at_path (inputSchema setTimePeriodTool) [''properties'', ''timePeriodName'', ''enum''])) = 19 \<and>
   length (elements (at_path (inputSchema setTimePeriodTool) [''properties'', ''tabName'', ''enum''])) = 5 \<and>
   validateArgs setTimePeriodTool sampleEnv
     (Obj [(''timePeriodName'', Str ''last month''), (''tabName'', Str ''Dashboard'')])
     = Inr (Obj [(''timePeriodName'', Str ''last month''), (''tabName'', Str ''Dashboard'')])"
proof -
  have v: "validateArgs setTimePeriodTool sampleEnv
     (Obj [(''timePeriodName'', Str ''last month''), (''tabName'', Str ''Dashboard'')])
     = Inr (Obj [(''timePeriodName'', Str ''last month''), (''tabName'', Str ''Dashboard'')])"
    unfolding validate_setTimePeriod setTimePeriodSchema_Inr by simp
  have s: "Str ''last month''
     \<notin> set (elements (at_path (inputSchema setTimePeriodTool) [''properties'', ''timePeriodName'', ''enum'']))"
    by (simp add: setTimePeriodTool_def PREDEFINED_PERIODS_def)
  have t: "Str ''Dashboard''
     \<notin> set (elements (at_path (inputSchema setTimePeriodTool) [''properties'', ''tabName'', ''enum'']))"
    by (simp add: setTimePeriodTool_def tabNames_def)
  have n: "length (elements (at_path (inputSchema setTimePeriodTool) [''properties'', ''timePeriodName'', ''enum''])) = 19"
    by (simp add: setTimePeriodTool_def PREDEFINED_PERIODS_def)
  have m: "length (elements (at_path (inputSchema setTimePeriodTool) [''properties'', ''tabName'', ''enum''])) = 5"
    by (simp add: setTimePeriodTool_def tabNames_def)
  from v s t n m show ?thesis by blast
qed

text \<open>
  C2, amended. Validation does not depend on the enumerated literals. For
  \<open>set_time_period\<close> it succeeds exactly when \<open>timePeriodName\<close> and \<open>tabName\<close> are
  strings that are not empty; for \<open>set_custom_date_range\<close> exactly when \<open>startDate\<close>
  and \<open>endDate\<close> are strings of the form \<open>dddd-dd-dd\<close> and \<open>tabName\<close> is a string
  that is not empty; for \<open>list_time_periods\<close> it always succeeds.
\<close>

theorem validateArgs_without_enum:
  "(\<exists>d. validateArgs setTimePeriodTool e args = Inr d)
     = (nonEmptyString (field args ''timePeriodName'') \<and> nonEmptyString (field args ''tabName'')) \<and>
   (\<exists>d. validateArgs setCustomDateRangeTool e args = Inr d)
     = (dateString (field args ''startDate'') \<and> dateString (field args ''endDate'')
        \<and> nonEmptyString (field args ''tabName'')) \<and>
   validateArgs listTimePeriodsTools e args = Inr args"
proof -
  have a: "(\<exists>d. validateArgs setTimePeriodTool e args = Inr d)
     = (nonEmptyString (field args ''timePeriodName'') \<and> nonEmptyString (field args ''tabName''))"
    unfolding validate_setTimePeriod setTimePeriodSchema_Inr nonEmptyString_iff by blast
  have b: "(\<exists>d. validateArgs setCustomDateRangeTool e args = Inr d)
     = (dateString (field args ''startDate'') \<and> dateString (field args ''endDate'')
        \<and> nonEmptyString (field args ''tabName''))"
    unfolding validate_setCustomDateRange setCustomDateRangeSchema_Inr nonEmptyString_iff dateString_iff
    by blast
  have c: "validateArgs listTimePeriodsTools e args = Inr args"
    by (simp add: listTimePeriodsTools_def)
  from a b c show ?thesis by blast
qed

theorem validateArgs_without_enum_witness:
  "(\<exists>d. validateArgs setTimePeriodTool sampleEnv
          (Obj [(''timePeriodName'', Str ''Last Month''), (''tabName'', Str ''Overview'')]) = Inr d) \<and>
   \<not> (\<exists>d. validateArgs setTimePeriodTool sampleEnv
          (Obj [(''timePeriodName'', Str []), (''tabName'', Str ''InvalidTab'')]) = Inr d)"
  using validateArgs_without_enum
          [of sampleEnv "Obj [(''timePeriodName'', Str ''Last Month''), (''tabName'', Str ''Overview'')]"]
        validateArgs_without_enum
          [of sampleEnv "Obj [(''timePeriodName'', Str []), (''tabName'', Str ''InvalidTab'')]"]
  by simp

section \<open>Custom date ranges\<close>







section \<open>The tool-call endpoint\<close>

lemma error_reply:
  "errorCode (st, createMCPError e code msg None) = Some (getErrorCode code)"
  "errorMessage (st, createMCPError e code msg None) = Some (Str msg)"
  "\<not> has (createMCPError e code msg None) ''result''"
  by (simp_all add: errorCode_def errorMessage_def createMCPError_def has_def)

text \<open>
  C1, as stated, fails: the handler first refuses a request whose name or arguments are
  falsy. The empty name is in no registry, and the request with the empty name and the
  arguments \<open>{}\<close> is answered \<open>INVALID_REQUEST\<close> (-32600), not
  \<open>METHOD_NOT_FOUND\<close>.
\<close>

theorem toolsCall_empty_name_counterexample:
  "find (\<lambda>t. tool_name t = []) timeFilterTools = None \<and>
   errorCode (dispatch sampleEnv (Some []) (Some (Obj []))) = Some (Num (-32600))"
  by (simp add: dispatch_def toolsCall_def falsy_def error_reply getErrorCode_table
                timeFilterTools_def setTimePeriodTool_def setCustomDateRangeTool_def
                listTimePeriodsTools_def)

text \<open>
  C1, amended. A request whose name is missing or empty, or whose arguments are missing
  or falsy, is answered \<open>INVALID_REQUEST\<close> (-32600) before the registry is looked at.
  For every other request, over any registry: a name that is not registered gives an
  error envelope with code \<open>METHOD_NOT_FOUND\<close> (-32601); a failed validation gives
  one with code \<open>INVALID_PARAMS\<close> (-32602) whose message ends with the validator's
  reason; a fault raised by the executor gives one with code \<open>INTERNAL_ERROR\<close>
  (-32603) whose message ends with the fault's message. The handler returns an
  envelope in each case.
\<close>

theorem toolsCall_failures:
  "(falsy (map_option Str toolName) \<or> falsy toolArgs \<longrightarrow>
      errorCode (toolsCall e tools toolName toolArgs) = Some (Num (-32600))) \<and>
   (\<forall>n a. toolName = Some n \<and> n \<noteq> [] \<and> toolArgs = Some a \<and> truthy a \<longrightarrow>
      (find (\<lambda>t. tool_name t = n) tools = None \<longrightarrow>
         errorCode (toolsCall e tools toolName toolArgs) = Some (Num (-32601)) \<and>
         \<not> has (snd (toolsCall e tools toolName toolArgs)) ''result'') \<and>
      (\<forall>t reason. find (\<lambda>t. tool_name t = n) tools = Some t \<and> validateArgs t e a = Inl reason \<longrightarrow>
         errorCode (toolsCall e tools toolName toolArgs) = Some (Num (-32602)) \<and>
         errorMessage (toolsCall e tools toolName toolArgs)
           = Some (Str (''Invalid arguments: '' @ reason)) \<and>
         \<not> has (snd (toolsCall e tools toolName toolArgs)) ''result'') \<and>
      (\<forall>t d fault. find (\<lambda>t. tool_name t = n) tools = Some t \<and> validateArgs t e a = Inr d
                    \<and> execute t e d = Inl fault \<longrightarrow>
         errorCode (toolsCall e tools toolName toolArgs) = Some (Num (-32603)) \<and>
         errorMessage (toolsCall e tools toolName toolArgs)
           = Some (Str (''Tool execution failed: '' @ fault)) \<and>
         \<not> has (snd (toolsCall e tools toolName toolArgs)) ''result''))"
proof -
  have guard: "falsy (map_option Str toolName) \<or> falsy toolArgs \<Longrightarrow>
      errorCode (toolsCall e tools toolName toolArgs) = Some (Num (-32600))"
    by (auto simp: toolsCall_def error_reply getErrorCode_table)
  have rest: "errorCode (toolsCall e tools toolName toolArgs) = Some (Num (-32601)) \<and>
              \<not> has (snd (toolsCall e tools toolName toolArgs)) ''result''"
    if "toolName = Some n" "n \<noteq> []" "toolArgs = Some a" "truthy a"
       "find (\<lambda>t. tool_name t = n) tools = None" for n a
    using that by (simp add: toolsCall_def falsy_def error_reply getErrorCode_table)
  have inv: "errorCode (toolsCall e tools toolName toolArgs) = Some (Num (-32602)) \<and>
         errorMessage (toolsCall e tools toolName toolArgs)
           = Some (Str (''Invalid arguments: '' @ reason)) \<and>
         \<not> has (snd (toolsCall e tools toolName toolArgs)) ''result''"
    if "toolName = Some n" "n \<noteq> []" "toolArgs = Some a" "truthy a"
       "find (\<lambda>t. tool_name t = n) tools = Some t" "validateArgs t e a = Inl reason"
    for n a t reason
    using that by (simp add: toolsCall_def falsy_def error_reply getErrorCode_table)
  have int: "errorCode (toolsCall e tools toolName toolArgs) = Some (Num (-32603)) \<and>
         errorMessage (toolsCall e tools toolName toolArgs)
           = Some (Str (''Tool execution failed: '' @ fault)) \<and>
         \<not> has (snd (toolsCall e tools toolName toolArgs)) ''result''"
    if "toolName = Some n" "n \<noteq> []" "toolArgs = Some a" "truthy a"
       "find (\<lambda>t. tool_name t = n) tools = Some t" "validateArgs t e a = Inr d"
       "execute t e d = Inl fault"
    for n a t d fault
    using that by (simp add: toolsCall_def falsy_def error_reply getErrorCode_table)
  show ?thesis
  proof (intro conjI allI impI)
    assume "falsy (map_option Str toolName) \<or> falsy toolArgs"
    then show "errorCode (toolsCall e tools toolName toolArgs) = Some (Num (-32600))"
      by (rule guard)
  next
    fix n a
    assume h: "toolName = Some n \<and> n \<noteq> [] \<and> toolArgs = Some a \<and> truthy a"
       and f: "find (\<lambda>t. tool_name t = n) tools = None"
    from h f rest [of n a]
    show "errorCode (toolsCall e tools toolName toolArgs) = Some (Num (-32601))"
      by simp
    from h f rest [of n a]
    show "\<not> has (snd (toolsCall e tools toolName toolArgs)) ''result''"
      by simp
  next
    fix n a t reason
    assume h: "toolName = Some n \<and> n \<noteq> [] \<and> toolArgs = Some a \<and> truthy a"
       and f: "find (\<lambda>t. tool_name t = n) tools = Some t \<and> validateArgs t e a = Inl reason"
    from h f inv [of n a t reason]
    show "errorCode (toolsCall e tools toolName toolArgs) = Some (Num (-32602))"
      by simp
    from h f inv [of n a t reason]
    show "errorMessage (toolsCall e tools toolName toolArgs)
           = Some (Str (''Invalid arguments: '' @ reason))"
      by simp
    from h f inv [of n a t reason]
    show "\<not> has (snd (toolsCall e tools toolName toolArgs)) ''result''"
      by simp
  next
    fix n a t d fault
    assume h: "toolName = Some n \<and> n \<noteq> [] \<and> toolArgs = Some a \<and> truthy a"
       and f: "find (\<lambda>t. tool_name t = n) tools = Some t \<and> validateArgs t e a = Inr d
                    \<and> execute t e d = Inl fault"
    from h f int [of n a t d fault]
    show "errorCode (toolsCall e tools toolName toolArgs) = Some (Num (-32603))"
      by simp
    from h f int [of n a t d fault]
    show "errorMessage (toolsCall e tools toolName toolArgs)
           = Some (Str (''Tool execution failed: '' @ fault))"
      by simp
    from h f int [of n a t d fault]
    show "\<not> has (snd (toolsCall e tools toolName toolArgs)) ''result''"
      by simp
  qed
qed

theorem toolsCall_failures_witness:
  "errorCode (toolsCall sampleEnv timeFilterTools (Some ''nonexistent'') (Some (Obj [])))
     = Some (Num (-32601)) \<and>
   errorCode (toolsCall sampleEnv timeFilterTools (Some ''set_time_period'')
                (Some (Obj [(''timePeriodName'', Str []), (''tabName'', Str ''Overview'')])))
     = Some (Num (-32602)) \<and>
   errorMessage (toolsCall sampleEnv timeFilterTools (Some ''set_time_period'')
                (Some (Obj [(''timePeriodName'', Str []), (''tabName'', Str ''Overview'')])))
     = Some (Str ''Invalid arguments: Time period name is required'') \<and>
   errorCode (toolsCall sampleEnv [faultyTool] (Some ''faulty'') (Some (Obj [])))
     = Some (Num (-32603)) \<and>
   errorMessage (toolsCall sampleEnv [faultyTool] (Some ''faulty'') (Some (Obj [])))
     = Some (Str ''Tool execution failed: boom'')"
proof -
  have f1: "find (\<lambda>t. tool_name t = ''nonexistent'') timeFilterTools = None"
    by (simp add: timeFilterTools_def setTimePeriodTool_def setCustomDateRangeTool_def
                  listTimePeriodsTools_def)
  have f2: "find (\<lambda>t. tool_name t = ''set_time_period'') timeFilterTools = Some setTimePeriodTool"
    by (simp add: timeFilterTools_def setTimePeriodTool_def)
  have v2: "validateArgs setTimePeriodTool sampleEnv
              (Obj [(''timePeriodName'', Str []), (''tabName'', Str ''Overview'')])
            = Inl ''Time period name is required''"
    by (simp add: setTimePeriodTool_def setTimePeriodSchema_def zod_object_def zod_string_def
                  zod_min_def sampleEnv_def Let_def)
  have f3: "find (\<lambda>t. tool_name t = ''faulty'') [faultyTool] = Some faultyTool"
    by (simp add: faultyTool_def)
  have v3: "validateArgs faultyTool sampleEnv (Obj []) = Inr (Obj [])"
    by (simp add: faultyTool_def listTimePeriodsTools_def)
  have x3: "execute faultyTool sampleEnv (Obj []) = Inl ''boom''"
    by (simp add: faultyTool_def)
  show ?thesis
    using toolsCall_failures [of "Some ''nonexistent''" "Some (Obj [])" sampleEnv timeFilterTools]
          toolsCall_failures [of "Some ''set_time_period''"
             "Some (Obj [(''timePeriodName'', Str []), (''tabName'', Str ''Overview'')])"
             sampleEnv timeFilterTools]
          toolsCall_failures [of "Some ''faulty''" "Some (Obj [])" sampleEnv "[faultyTool]"]
          f1 f2 v2 f3 v3 x3
    by simp
qed

section \<open>The registry\<close>

text \<open>
  The registry is the array \<open>timeFilterTools\<close>. The code reads it with \<open>find\<close> and
  \<open>map\<close> and has no operation that adds a tool to it or refuses a name. Its three
  names are distinct, so lookup by name finds the one tool of that name.
\<close>

lemma timeFilterTools_names:
  "map tool_name timeFilterTools
     = [''set_time_period'', ''set_custom_date_range'', ''list_time_periods''] \<and>
   distinct (map tool_name timeFilterTools)"
  by (simp add: timeFilterTools_def setTimePeriodTool_def setCustomDateRangeTool_def
                listTimePeriodsTools_def)

end
